theory Spec2Isabelle
  imports Main "HOL-Library.Word"
begin

section \<open>The core-data Mongo client: data model\<close>

text \<open>
  The development embeds the data-access layer of the core-data service (package
  \<^verbatim>\<open>clients\<close>): every method of \<^verbatim>\<open>MongoClient\<close> that the properties below talk about
  becomes a function that takes the client state and returns the Go results together
  with the new state. A Go result pair \<^verbatim>\<open>(value, error)\<close> is a pair of the value and an
  \<open>error option\<close>, \<open>None\<close> being \<^verbatim>\<open>nil\<close>.
\<close>

subsection \<open>Machine integers, time and identifiers\<close>

type_synonym int64 = "64 word"

text \<open>Go's \<^verbatim>\<open>/\<close> on \<^verbatim>\<open>int64\<close> truncates towards zero.\<close>

definition go_div64 :: "int64 \<Rightarrow> int64 \<Rightarrow> int64" where
  "go_div64 a b = word_of_int (sgn (sint a) * sgn (sint b) * (\<bar>sint a\<bar> div \<bar>sint b\<bar>))"

text \<open>
  A \<^verbatim>\<open>bson.ObjectId\<close> is a string of twelve bytes; \<open>Oid n\<close> is the identifier whose
  bytes read as the number \<open>n\<close>, and \<open>NoId\<close> is Go's zero value (the empty string), which
  the \<^verbatim>\<open>omitempty\<close> tag leaves out of a document.
\<close>

datatype ObjectId = NoId | Oid nat

text \<open>
  \<^verbatim>\<open>bson.IsObjectIdHex\<close> accepts exactly the strings of 24 hexadecimal digits (either
  case); \<^verbatim>\<open>bson.ObjectIdHex\<close> decodes such a string and panics on every other one,
  which is the value \<open>None\<close> here.
\<close>

definition hexval :: "char \<Rightarrow> nat option" where
  "hexval c =
     (let n = (of_char c :: nat) in
      if 48 \<le> n \<and> n \<le> 57 then Some (n - 48)
      else if 97 \<le> n \<and> n \<le> 102 then Some (n - 87)
      else if 65 \<le> n \<and> n \<le> 70 then Some (n - 55)
      else None)"

definition IsObjectIdHex :: "string \<Rightarrow> bool" where
  "IsObjectIdHex s = (length s = 24 \<and> list_all (\<lambda>c. hexval c \<noteq> None) s)"

fun hexnat :: "nat \<Rightarrow> string \<Rightarrow> nat" where
  "hexnat acc [] = acc"
| "hexnat acc (c # cs) = hexnat (16 * acc + (case hexval c of Some d \<Rightarrow> d | None \<Rightarrow> 0)) cs"

definition ObjectIdHex :: "string \<Rightarrow> ObjectId option" where
  "ObjectIdHex s = (if IsObjectIdHex s then Some (Oid (hexnat 0 s)) else None)"

subsection \<open>Entities\<close>

text \<open>
  Modelled from the spec: the declarations of \<^verbatim>\<open>models.Reading\<close>, \<^verbatim>\<open>models.Event\<close> and
  \<^verbatim>\<open>models.ValueDescriptor\<close> live in another package; the records carry the attributes
  that the data model lists for each entity, under the field names the client uses.
\<close>

record Reading =
  Id :: ObjectId
  Created :: int64
  Modified :: int64
  Device :: string
  Name :: string
  Value :: string

record Event =
  ID :: ObjectId
  Pushed :: int64
  Device :: string
  Created :: int64
  Modified :: int64
  Readings :: "Reading list"

record ValueDescriptor =
  Id :: ObjectId
  Created :: int64
  Modified :: int64
  Name :: string
  UomLabel :: string
  Labels :: "string list"
  Type :: string

text \<open>
  Modelled from the spec: \<^verbatim>\<open>MongoEvent\<close> is declared in another file of the package. It
  wraps an \<^verbatim>\<open>Event\<close> (\<^verbatim>\<open>MongoEvent{Event: e}\<close>) and is the document written to and read
  from the event collection. The document stands for the wrapped Event with its Readings
  (which the stored form joins to the Event by reference); how the wrapper is encoded on
  the wire is below this model, and a document read back is the wrapper that was written.
\<close>

datatype MongoEvent = MongoEvent (Event: Event)

definition Event_zero :: Event where
  "Event_zero = \<lparr>ID = NoId, Pushed = 0, Device = [], Created = 0, Modified = 0, Readings = []\<rparr>"

definition Reading_zero :: Reading where
  "Reading_zero = \<lparr>Reading.Id = NoId, Created = 0, Modified = 0, Device = [], Name = [], Value = []\<rparr>"

definition ValueDescriptor_zero :: ValueDescriptor where
  "ValueDescriptor_zero =
     \<lparr>ValueDescriptor.Id = NoId, Created = 0, Modified = 0, Name = [], UomLabel = [],
      Labels = [], Type = []\<rparr>"

subsection \<open>Errors\<close>

text \<open>
  Modelled from the spec: \<^verbatim>\<open>ErrNotFound\<close>, \<^verbatim>\<open>ErrInvalidObjectId\<close> and \<^verbatim>\<open>ErrNotUnique\<close> are
  declared in another file of the package; they are the error kinds NotFound,
  InvalidIdentifier and NotUnique. \<open>MgoErrNotFound\<close> is the driver's
  \<^verbatim>\<open>mgo.ErrNotFound\<close>, \<open>MgoError\<close> any other failure the driver reports (the
  UnexpectedError kind), and \<open>GoPanic\<close> a run-time panic.
\<close>

datatype error =
    ErrNotFound
  | ErrInvalidObjectId
  | ErrNotUnique
  | MgoErrNotFound
  | MgoError string
  | GoPanic string

definition EVENTS_COLLECTION :: string where
  "EVENTS_COLLECTION = ''event''"

definition READINGS_COLLECTION :: string where
  "READINGS_COLLECTION = ''reading''"

definition VALUE_DESCRIPTOR_COLLECTION :: string where
  "VALUE_DESCRIPTOR_COLLECTION = ''valueDescriptor''"

section \<open>The document store behind the client\<close>

text \<open>
  The client state holds what a method can observe or change: the three collections of
  the database (documents in store order), the clock that \<^verbatim>\<open>time.Now()\<close> reads (in
  nanoseconds since the epoch), and the counter from which \<^verbatim>\<open>bson.NewObjectId()\<close> draws.
  Two further fields make the effects explicit. \<open>issued\<close> records every operation sent to
  the store, in order, as the collection name and the kind of operation. \<open>faults\<close> is the
  script of the driver's outcomes for the operations still to come: \<open>Some msg\<close> makes the
  next operation fail with \<open>MgoError msg\<close> and leave its collection as it was (a lost
  connection, a rejected write), \<open>None\<close> or an exhausted script lets it through.
  Copying and closing a session sends nothing to the store and is not recorded.
\<close>

datatype StoreOp = OpInsert | OpUpsert | OpUpdateId | OpRemoveId | OpFind

record MongoClient =
  event :: "MongoEvent list"
  reading :: "Reading list"
  valueDescriptor :: "ValueDescriptor list"
  issued :: "(string \<times> StoreOp) list"
  faults :: "string option list"
  objectIdCounter :: nat
  UnixNano :: int64

record ChangeInfo =
  Updated :: nat
  UpsertedId :: "ObjectId option"

definition nowMillis :: "MongoClient \<Rightarrow> int64" where
  \<comment> \<open>\<^verbatim>\<open>time.Now().UnixNano() / int64(time.Millisecond)\<close>\<close>
  "nowMillis mc = go_div64 (UnixNano mc) 1000000"

definition NewObjectId :: "MongoClient \<Rightarrow> ObjectId \<times> MongoClient" where
  "NewObjectId mc = (Oid (objectIdCounter mc), mc\<lparr>objectIdCounter := Suc (objectIdCounter mc)\<rparr>)"

definition driver :: "string \<Rightarrow> StoreOp \<Rightarrow> MongoClient \<Rightarrow> string option \<times> MongoClient" where
  "driver col op mc =
     (case faults mc of
        [] \<Rightarrow> (None, mc\<lparr>issued := issued mc @ [(col, op)]\<rparr>)
      | f # fs \<Rightarrow> (f, mc\<lparr>issued := issued mc @ [(col, op)], faults := fs\<rparr>))"

subsection \<open>Operations of the driver on a list of documents\<close>

text \<open>
  \<^verbatim>\<open>UpdateId\<close> and \<^verbatim>\<open>RemoveId\<close> act on the first document the selector matches and report
  \<^verbatim>\<open>mgo.ErrNotFound\<close> (\<open>None\<close> here) when there is none. \<^verbatim>\<open>Limit(n)\<close> keeps at most \<open>\<bar>n\<bar>\<close>
  documents of the result; the limit is an unbounded integer here, and what the driver
  does with a limit beyond 32 bits is left out.
\<close>

fun replace_first :: "('a \<Rightarrow> bool) \<Rightarrow> 'a \<Rightarrow> 'a list \<Rightarrow> 'a list option" where
  "replace_first p y [] = None"
| "replace_first p y (x # xs) =
     (if p x then Some (y # xs) else map_option ((#) x) (replace_first p y xs))"

fun remove_first :: "('a \<Rightarrow> bool) \<Rightarrow> 'a list \<Rightarrow> 'a list option" where
  "remove_first p [] = None"
| "remove_first p (x # xs) =
     (if p x then Some xs else map_option ((#) x) (remove_first p xs))"

definition mgo_limit :: "int \<Rightarrow> 'a list \<Rightarrow> 'a list" where
  "mgo_limit n xs = take (nat \<bar>n\<bar>) xs"

subsection \<open>Store operations on the three collections\<close>

text \<open>
  Each operation first asks the driver (which records it and reads the fault script) and
  touches the collection only when the driver lets it through. A query is the predicate
  that its \<^verbatim>\<open>bson.M\<close> filter denotes on the documents of the collection.
\<close>

definition Insert_readings :: "Reading list \<Rightarrow> MongoClient \<Rightarrow> error option \<times> MongoClient" where
  "Insert_readings docs mc =
     (case driver READINGS_COLLECTION OpInsert mc of
        (Some msg, mc1) \<Rightarrow> (Some (MgoError msg), mc1)
      | (None, mc1) \<Rightarrow> (None, mc1\<lparr>reading := reading mc1 @ docs\<rparr>))"

definition Insert_event :: "MongoEvent \<Rightarrow> MongoClient \<Rightarrow> error option \<times> MongoClient" where
  "Insert_event me mc =
     (case driver EVENTS_COLLECTION OpInsert mc of
        (Some msg, mc1) \<Rightarrow> (Some (MgoError msg), mc1)
      | (None, mc1) \<Rightarrow> (None, mc1\<lparr>event := event mc1 @ [me]\<rparr>))"

definition UpdateId_event :: "ObjectId \<Rightarrow> MongoEvent \<Rightarrow> MongoClient \<Rightarrow> error option \<times> MongoClient" where
  "UpdateId_event oid me mc =
     (case driver EVENTS_COLLECTION OpUpdateId mc of
        (Some msg, mc1) \<Rightarrow> (Some (MgoError msg), mc1)
      | (None, mc1) \<Rightarrow>
          (case replace_first (\<lambda>d. ID (Event d) = oid) me (event mc1) of
             None \<Rightarrow> (Some MgoErrNotFound, mc1)
           | Some docs \<Rightarrow> (None, mc1\<lparr>event := docs\<rparr>)))"

definition UpdateId_reading :: "ObjectId \<Rightarrow> Reading \<Rightarrow> MongoClient \<Rightarrow> error option \<times> MongoClient" where
  "UpdateId_reading oid r mc =
     (case driver READINGS_COLLECTION OpUpdateId mc of
        (Some msg, mc1) \<Rightarrow> (Some (MgoError msg), mc1)
      | (None, mc1) \<Rightarrow>
          (case replace_first (\<lambda>d. Reading.Id d = oid) r (reading mc1) of
             None \<Rightarrow> (Some MgoErrNotFound, mc1)
           | Some docs \<Rightarrow> (None, mc1\<lparr>reading := docs\<rparr>)))"

definition UpdateId_valueDescriptor ::
  "ObjectId \<Rightarrow> ValueDescriptor \<Rightarrow> MongoClient \<Rightarrow> error option \<times> MongoClient" where
  "UpdateId_valueDescriptor oid v mc =
     (case driver VALUE_DESCRIPTOR_COLLECTION OpUpdateId mc of
        (Some msg, mc1) \<Rightarrow> (Some (MgoError msg), mc1)
      | (None, mc1) \<Rightarrow>
          (case replace_first (\<lambda>d. ValueDescriptor.Id d = oid) v (valueDescriptor mc1) of
             None \<Rightarrow> (Some MgoErrNotFound, mc1)
           | Some docs \<Rightarrow> (None, mc1\<lparr>valueDescriptor := docs\<rparr>)))"

text \<open>
  \<^verbatim>\<open>Upsert(selector, v)\<close> with a whole document \<open>v\<close>: when the selector matches a stored
  document, that document is replaced by \<open>v\<close> and keeps its \<^verbatim>\<open>_id\<close> (a \<open>v\<close> that names a
  different \<^verbatim>\<open>_id\<close> is rejected by the store); no \<^verbatim>\<open>UpsertedId\<close> is reported. When
  nothing matches, \<open>v\<close> is inserted, under its own \<^verbatim>\<open>_id\<close> or, if it has none, under a
  newly generated one, which is reported as \<^verbatim>\<open>UpsertedId\<close>.
\<close>

definition Upsert_valueDescriptor ::
  "(ValueDescriptor \<Rightarrow> bool) \<Rightarrow> ValueDescriptor \<Rightarrow> MongoClient \<Rightarrow>
     ChangeInfo \<times> error option \<times> MongoClient" where
  "Upsert_valueDescriptor sel v mc =
     (case driver VALUE_DESCRIPTOR_COLLECTION OpUpsert mc of
        (Some msg, mc1) \<Rightarrow> (\<lparr>Updated = 0, UpsertedId = None\<rparr>, Some (MgoError msg), mc1)
      | (None, mc1) \<Rightarrow>
          (case List.find sel (valueDescriptor mc1) of
             Some d \<Rightarrow>
               if ValueDescriptor.Id v = NoId \<or> ValueDescriptor.Id v = ValueDescriptor.Id d
               then (case replace_first sel (v\<lparr>ValueDescriptor.Id := ValueDescriptor.Id d\<rparr>)
                            (valueDescriptor mc1) of
                       Some docs \<Rightarrow>
                         (\<lparr>Updated = 1, UpsertedId = None\<rparr>, None, mc1\<lparr>valueDescriptor := docs\<rparr>)
                     | None \<Rightarrow> (\<lparr>Updated = 0, UpsertedId = None\<rparr>, None, mc1))
               else (\<lparr>Updated = 0, UpsertedId = None\<rparr>,
                     Some (MgoError ''the _id field of a document cannot be changed''), mc1)
           | None \<Rightarrow>
               if ValueDescriptor.Id v = NoId
               then (case NewObjectId mc1 of
                       (oid, mc2) \<Rightarrow>
                         (\<lparr>Updated = 0, UpsertedId = Some oid\<rparr>, None,
                          mc2\<lparr>valueDescriptor :=
                                 valueDescriptor mc2 @ [v\<lparr>ValueDescriptor.Id := oid\<rparr>]\<rparr>))
               else (\<lparr>Updated = 0, UpsertedId = Some (ValueDescriptor.Id v)\<rparr>, None,
                     mc1\<lparr>valueDescriptor := valueDescriptor mc1 @ [v]\<rparr>)))"

definition RemoveId :: "string \<Rightarrow> ObjectId \<Rightarrow> MongoClient \<Rightarrow> error option \<times> MongoClient" where
  "RemoveId col oid mc =
     (case driver col OpRemoveId mc of
        (Some msg, mc1) \<Rightarrow> (Some (MgoError msg), mc1)
      | (None, mc1) \<Rightarrow>
          if col = EVENTS_COLLECTION then
            (case remove_first (\<lambda>d. ID (Event d) = oid) (event mc1) of
               None \<Rightarrow> (Some MgoErrNotFound, mc1)
             | Some docs \<Rightarrow> (None, mc1\<lparr>event := docs\<rparr>))
          else if col = READINGS_COLLECTION then
            (case remove_first (\<lambda>d. Reading.Id d = oid) (reading mc1) of
               None \<Rightarrow> (Some MgoErrNotFound, mc1)
             | Some docs \<Rightarrow> (None, mc1\<lparr>reading := docs\<rparr>))
          else if col = VALUE_DESCRIPTOR_COLLECTION then
            (case remove_first (\<lambda>d. ValueDescriptor.Id d = oid) (valueDescriptor mc1) of
               None \<Rightarrow> (Some MgoErrNotFound, mc1)
             | Some docs \<Rightarrow> (None, mc1\<lparr>valueDescriptor := docs\<rparr>))
          else (Some MgoErrNotFound, mc1))"

definition Find_events_All ::
  "(MongoEvent \<Rightarrow> bool) \<Rightarrow> MongoClient \<Rightarrow> MongoEvent list \<times> error option \<times> MongoClient" where
  "Find_events_All q mc =
     (case driver EVENTS_COLLECTION OpFind mc of
        (Some msg, mc1) \<Rightarrow> ([], Some (MgoError msg), mc1)
      | (None, mc1) \<Rightarrow> (filter q (event mc1), None, mc1))"

definition Find_events_Limit_All ::
  "(MongoEvent \<Rightarrow> bool) \<Rightarrow> int \<Rightarrow> MongoClient \<Rightarrow> MongoEvent list \<times> error option \<times> MongoClient" where
  "Find_events_Limit_All q limit mc =
     (case driver EVENTS_COLLECTION OpFind mc of
        (Some msg, mc1) \<Rightarrow> ([], Some (MgoError msg), mc1)
      | (None, mc1) \<Rightarrow> (mgo_limit limit (filter q (event mc1)), None, mc1))"

definition Find_events_One ::
  "(MongoEvent \<Rightarrow> bool) \<Rightarrow> MongoClient \<Rightarrow> MongoEvent \<times> error option \<times> MongoClient" where
  "Find_events_One q mc =
     (case driver EVENTS_COLLECTION OpFind mc of
        (Some msg, mc1) \<Rightarrow> (MongoEvent Event_zero, Some (MgoError msg), mc1)
      | (None, mc1) \<Rightarrow>
          (case List.find q (event mc1) of
             None \<Rightarrow> (MongoEvent Event_zero, Some MgoErrNotFound, mc1)
           | Some d \<Rightarrow> (d, None, mc1)))"

definition Find_readings_Limit_All ::
  "(Reading \<Rightarrow> bool) \<Rightarrow> int \<Rightarrow> MongoClient \<Rightarrow> Reading list \<times> error option \<times> MongoClient" where
  "Find_readings_Limit_All q limit mc =
     (case driver READINGS_COLLECTION OpFind mc of
        (Some msg, mc1) \<Rightarrow> ([], Some (MgoError msg), mc1)
      | (None, mc1) \<Rightarrow> (mgo_limit limit (filter q (reading mc1)), None, mc1))"

definition Find_readings_One ::
  "(Reading \<Rightarrow> bool) \<Rightarrow> MongoClient \<Rightarrow> Reading \<times> error option \<times> MongoClient" where
  "Find_readings_One q mc =
     (case driver READINGS_COLLECTION OpFind mc of
        (Some msg, mc1) \<Rightarrow> (Reading_zero, Some (MgoError msg), mc1)
      | (None, mc1) \<Rightarrow>
          (case List.find q (reading mc1) of
             None \<Rightarrow> (Reading_zero, Some MgoErrNotFound, mc1)
           | Some d \<Rightarrow> (d, None, mc1)))"

definition Find_valueDescriptors_One ::
  "(ValueDescriptor \<Rightarrow> bool) \<Rightarrow> MongoClient \<Rightarrow> ValueDescriptor \<times> error option \<times> MongoClient" where
  "Find_valueDescriptors_One q mc =
     (case driver VALUE_DESCRIPTOR_COLLECTION OpFind mc of
        (Some msg, mc1) \<Rightarrow> (ValueDescriptor_zero, Some (MgoError msg), mc1)
      | (None, mc1) \<Rightarrow>
          (case List.find q (valueDescriptor mc1) of
             None \<Rightarrow> (ValueDescriptor_zero, Some MgoErrNotFound, mc1)
           | Some d \<Rightarrow> (d, None, mc1)))"

section \<open>The client's methods\<close>

subsection \<open>Events\<close>

definition getEvents ::
  "(MongoEvent \<Rightarrow> bool) \<Rightarrow> MongoClient \<Rightarrow> Event list \<times> error option \<times> MongoClient" where
  "getEvents q mc =
     (case Find_events_All q mc of
        (me, err, mc1) \<Rightarrow> if err \<noteq> None then ([], err, mc1) else (map Event me, None, mc1))"

definition getEventsLimit ::
  "(MongoEvent \<Rightarrow> bool) \<Rightarrow> int \<Rightarrow> MongoClient \<Rightarrow> Event list \<times> error option \<times> MongoClient" where
  "getEventsLimit q limit mc =
     (if limit = 0 then ([], None, mc)
      else case Find_events_Limit_All q limit mc of
        (me, err, mc1) \<Rightarrow> if err \<noteq> None then ([], err, mc1) else (map Event me, None, mc1))"

definition getEvent ::
  "(MongoEvent \<Rightarrow> bool) \<Rightarrow> MongoClient \<Rightarrow> Event \<times> error option \<times> MongoClient" where
  "getEvent q mc =
     (case Find_events_One q mc of
        (me, err, mc1) \<Rightarrow>
          if err = Some MgoErrNotFound then (Event me, Some ErrNotFound, mc1)
          else (Event me, err, mc1))"

text \<open>
  The loop of \<^verbatim>\<open>AddEvent\<close> over \<^verbatim>\<open>e.Readings\<close>: each Reading gets a new identifier and the
  Event's creation time and device; the stamped Readings are both the Event's Readings
  and the documents \<^verbatim>\<open>ui\<close> to insert.
\<close>

fun stampReadings :: "Event \<Rightarrow> Reading list \<Rightarrow> MongoClient \<Rightarrow> Reading list \<times> MongoClient" where
  "stampReadings e [] mc = ([], mc)"
| "stampReadings e (r # rs) mc =
     (case NewObjectId mc of
        (oid, mc1) \<Rightarrow>
          (case stampReadings e rs mc1 of
             (rs', mc2) \<Rightarrow>
               (r\<lparr>Reading.Id := oid, Reading.Created := Event.Created e,
                  Reading.Device := Event.Device e\<rparr> # rs', mc2)))"

text \<open>
  \<^verbatim>\<open>AddEvent\<close> takes a pointer and writes through it: the first component of the result
  is the caller's Event after the call, the second and third are the Go results.
\<close>

definition AddEvent :: "Event \<Rightarrow> MongoClient \<Rightarrow> Event \<times> ObjectId \<times> error option \<times> MongoClient" where
  "AddEvent e mc =
     (let e1 = e\<lparr>Event.Created := nowMillis mc\<rparr> in
      case NewObjectId mc of
        (oid, mc1) \<Rightarrow>
          let e2 = e1\<lparr>ID := oid\<rparr> in
          (case (if length (Readings e2) \<noteq> 0
                 then (case stampReadings e2 (Readings e2) mc1 of
                         (ui, mc2) \<Rightarrow>
                           (case Insert_readings ui mc2 of
                              (err, mc3) \<Rightarrow> (e2\<lparr>Readings := ui\<rparr>, err, mc3)))
                 else (e2, None, mc1)) of
             (e3, err, mc3) \<Rightarrow>
               if err \<noteq> None then (e3, ID e3, err, mc3)
               else (case Insert_event (MongoEvent e3) mc3 of
                       (err', mc4) \<Rightarrow> (e3, ID e3, err', mc4))))"

definition UpdateEvent :: "Event \<Rightarrow> MongoClient \<Rightarrow> error option \<times> MongoClient" where
  "UpdateEvent e mc =
     (let me = MongoEvent (e\<lparr>Event.Modified := nowMillis mc\<rparr>) in
      case UpdateId_event (ID (Event me)) me mc of
        (err, mc1) \<Rightarrow> if err = Some MgoErrNotFound then (Some ErrNotFound, mc1) else (err, mc1))"

definition EventById :: "string \<Rightarrow> MongoClient \<Rightarrow> Event \<times> error option \<times> MongoClient" where
  "EventById id' mc =
     (if \<not> IsObjectIdHex id' then (Event_zero, Some ErrInvalidObjectId, mc)
      else case ObjectIdHex id' of
        None \<Rightarrow> (Event_zero, Some (GoPanic ''Invalid input to ObjectIdHex''), mc)
      | Some oid \<Rightarrow> getEvent (\<lambda>d. ID (Event d) = oid) mc)"

definition EventsForDeviceLimit ::
  "string \<Rightarrow> int \<Rightarrow> MongoClient \<Rightarrow> Event list \<times> error option \<times> MongoClient" where
  "EventsForDeviceLimit id' limit mc = getEventsLimit (\<lambda>d. Event.Device (Event d) = id') limit mc"

definition EventsByCreationTime ::
  "int64 \<Rightarrow> int64 \<Rightarrow> int \<Rightarrow> MongoClient \<Rightarrow> Event list \<times> error option \<times> MongoClient" where
  "EventsByCreationTime startTime endTime limit mc =
     getEventsLimit
       (\<lambda>d. startTime \<le>s Event.Created (Event d) \<and> Event.Created (Event d) \<le>s endTime) limit mc"

definition EventsOlderThanAge ::
  "int64 \<Rightarrow> MongoClient \<Rightarrow> Event list \<times> error option \<times> MongoClient" where
  "EventsOlderThanAge age mc =
     (let expireDate = nowMillis mc - age in
      getEvents (\<lambda>d. Event.Created (Event d) <s expireDate) mc)"

subsection \<open>Deleting by identifier\<close>

definition deleteById :: "string \<Rightarrow> string \<Rightarrow> MongoClient \<Rightarrow> error option \<times> MongoClient" where
  "deleteById id' col mc =
     (if \<not> IsObjectIdHex id' then (Some ErrInvalidObjectId, mc)
      else case ObjectIdHex id' of
        None \<Rightarrow> (Some (GoPanic ''Invalid input to ObjectIdHex''), mc)
      | Some oid \<Rightarrow>
          (case RemoveId col oid mc of
             (err, mc1) \<Rightarrow>
               if err = Some MgoErrNotFound then (Some ErrNotFound, mc1) else (err, mc1)))"

definition DeleteEventById :: "string \<Rightarrow> MongoClient \<Rightarrow> error option \<times> MongoClient" where
  "DeleteEventById id' mc = deleteById id' EVENTS_COLLECTION mc"

subsection \<open>Readings\<close>

definition getReadingsLimit ::
  "(Reading \<Rightarrow> bool) \<Rightarrow> int \<Rightarrow> MongoClient \<Rightarrow> Reading list \<times> error option \<times> MongoClient" where
  "getReadingsLimit q limit mc =
     (if limit = 0 then ([], None, mc) else Find_readings_Limit_All q limit mc)"

definition getReading ::
  "(Reading \<Rightarrow> bool) \<Rightarrow> MongoClient \<Rightarrow> Reading \<times> error option \<times> MongoClient" where
  "getReading q mc =
     (case Find_readings_One q mc of
        (res, err, mc1) \<Rightarrow>
          if err = Some MgoErrNotFound then (res, Some ErrNotFound, mc1) else (res, err, mc1))"

definition UpdateReading :: "Reading \<Rightarrow> MongoClient \<Rightarrow> error option \<times> MongoClient" where
  "UpdateReading r mc =
     (let r1 = r\<lparr>Reading.Modified := nowMillis mc\<rparr> in
      case UpdateId_reading (Reading.Id r1) r1 mc of
        (err, mc1) \<Rightarrow> if err = Some MgoErrNotFound then (Some ErrNotFound, mc1) else (err, mc1))"

definition ReadingById :: "string \<Rightarrow> MongoClient \<Rightarrow> Reading \<times> error option \<times> MongoClient" where
  "ReadingById id' mc =
     (if \<not> IsObjectIdHex id' then (Reading_zero, Some ErrInvalidObjectId, mc)
      else case ObjectIdHex id' of
        None \<Rightarrow> (Reading_zero, Some (GoPanic ''Invalid input to ObjectIdHex''), mc)
      | Some oid \<Rightarrow> getReading (\<lambda>d. Reading.Id d = oid) mc)"

definition DeleteReadingById :: "string \<Rightarrow> MongoClient \<Rightarrow> error option \<times> MongoClient" where
  "DeleteReadingById id' mc =
     (if \<not> IsObjectIdHex id' then (Some ErrInvalidObjectId, mc)
      else deleteById id' READINGS_COLLECTION mc)"

definition ReadingsByDevice ::
  "string \<Rightarrow> int \<Rightarrow> MongoClient \<Rightarrow> Reading list \<times> error option \<times> MongoClient" where
  "ReadingsByDevice id' limit mc = getReadingsLimit (\<lambda>d. Reading.Device d = id') limit mc"

definition ReadingsByValueDescriptor ::
  "string \<Rightarrow> int \<Rightarrow> MongoClient \<Rightarrow> Reading list \<times> error option \<times> MongoClient" where
  "ReadingsByValueDescriptor name limit mc =
     getReadingsLimit (\<lambda>d. Reading.Name d = name) limit mc"

definition ReadingsByValueDescriptorNames ::
  "string list \<Rightarrow> int \<Rightarrow> MongoClient \<Rightarrow> Reading list \<times> error option \<times> MongoClient" where
  "ReadingsByValueDescriptorNames names limit mc =
     getReadingsLimit (\<lambda>d. List.member names (Reading.Name d)) limit mc"

definition ReadingsByCreationTime ::
  "int64 \<Rightarrow> int64 \<Rightarrow> int \<Rightarrow> MongoClient \<Rightarrow> Reading list \<times> error option \<times> MongoClient" where
  "ReadingsByCreationTime start end' limit mc =
     getReadingsLimit (\<lambda>d. start \<le>s Reading.Created d \<and> Reading.Created d \<le>s end') limit mc"

definition ReadingsByDeviceAndValueDescriptor ::
  "string \<Rightarrow> string \<Rightarrow> int \<Rightarrow> MongoClient \<Rightarrow> Reading list \<times> error option \<times> MongoClient" where
  "ReadingsByDeviceAndValueDescriptor deviceId valueDescriptor' limit mc =
     getReadingsLimit
       (\<lambda>d. Reading.Device d = deviceId \<and> Reading.Name d = valueDescriptor') limit mc"

subsection \<open>Value descriptors\<close>

definition getValueDescriptor ::
  "(ValueDescriptor \<Rightarrow> bool) \<Rightarrow> MongoClient \<Rightarrow> ValueDescriptor \<times> error option \<times> MongoClient" where
  "getValueDescriptor q mc =
     (case Find_valueDescriptors_One q mc of
        (v, err, mc1) \<Rightarrow>
          if err = Some MgoErrNotFound then (v, Some ErrNotFound, mc1) else (v, err, mc1))"

definition AddValueDescriptor ::
  "ValueDescriptor \<Rightarrow> MongoClient \<Rightarrow> ObjectId \<times> error option \<times> MongoClient" where
  "AddValueDescriptor v mc =
     (let v1 = v\<lparr>ValueDescriptor.Created := nowMillis mc\<rparr> in
      case Upsert_valueDescriptor (\<lambda>d. ValueDescriptor.Name d = ValueDescriptor.Name v1) v1 mc of
        (info, err, mc1) \<Rightarrow>
          if err \<noteq> None then (ValueDescriptor.Id v1, err, mc1)
          else (case UpsertedId info of
                  None \<Rightarrow> (ValueDescriptor.Id v1, Some ErrNotUnique, mc1)
                | Some oid \<Rightarrow> (oid, err, mc1)))"

definition UpdateValueDescriptor :: "ValueDescriptor \<Rightarrow> MongoClient \<Rightarrow> error option \<times> MongoClient" where
  "UpdateValueDescriptor v mc =
     (case getValueDescriptor (\<lambda>d. ValueDescriptor.Name d = ValueDescriptor.Name v) mc of
        (vd, err, mc1) \<Rightarrow>
          if err \<noteq> Some ErrNotFound \<and> err \<noteq> None then (err, mc1)
          else if err \<noteq> Some ErrNotFound \<and> ValueDescriptor.Id vd \<noteq> ValueDescriptor.Id v
          then (Some ErrNotUnique, mc1)
          else
            (let v1 = v\<lparr>ValueDescriptor.Modified := nowMillis mc1\<rparr> in
             case UpdateId_valueDescriptor (ValueDescriptor.Id v1) v1 mc1 of
               (err', mc2) \<Rightarrow>
                 if err' = Some MgoErrNotFound then (Some ErrNotFound, mc2) else (err', mc2)))"

definition DeleteValueDescriptorById :: "string \<Rightarrow> MongoClient \<Rightarrow> error option \<times> MongoClient" where
  "DeleteValueDescriptorById id' mc =
     (if \<not> IsObjectIdHex id' then (Some ErrInvalidObjectId, mc)
      else deleteById id' VALUE_DESCRIPTOR_COLLECTION mc)"

definition ValueDescriptorByName ::
  "string \<Rightarrow> MongoClient \<Rightarrow> ValueDescriptor \<times> error option \<times> MongoClient" where
  "ValueDescriptorByName name mc = getValueDescriptor (\<lambda>d. ValueDescriptor.Name d = name) mc"

text \<open>
  The loop of \<^verbatim>\<open>ValueDescriptorsByName\<close> over the names, with \<^verbatim>\<open>vList\<close> as accumulator.
\<close>

fun ValueDescriptorsByName_loop ::
  "string list \<Rightarrow> ValueDescriptor list \<Rightarrow> MongoClient \<Rightarrow>
     ValueDescriptor list \<times> error option \<times> MongoClient" where
  "ValueDescriptorsByName_loop [] vList mc = (vList, None, mc)"
| "ValueDescriptorsByName_loop (name # names) vList mc =
     (case ValueDescriptorByName name mc of
        (v, err, mc1) \<Rightarrow>
          if err \<noteq> None \<and> err \<noteq> Some ErrNotFound then ([], err, mc1)
          else if err = None then ValueDescriptorsByName_loop names (vList @ [v]) mc1
          else ValueDescriptorsByName_loop names vList mc1)"

definition ValueDescriptorsByName ::
  "string list \<Rightarrow> MongoClient \<Rightarrow> ValueDescriptor list \<times> error option \<times> MongoClient" where
  "ValueDescriptorsByName names mc = ValueDescriptorsByName_loop names [] mc"

definition ValueDescriptorById ::
  "string \<Rightarrow> MongoClient \<Rightarrow> ValueDescriptor \<times> error option \<times> MongoClient" where
  "ValueDescriptorById id' mc =
     (if \<not> IsObjectIdHex id' then (ValueDescriptor_zero, Some ErrInvalidObjectId, mc)
      else case ObjectIdHex id' of
        None \<Rightarrow> (ValueDescriptor_zero, Some (GoPanic ''Invalid input to ObjectIdHex''), mc)
      | Some oid \<Rightarrow> getValueDescriptor (\<lambda>d. ValueDescriptor.Id d = oid) mc)"

section \<open>Vocabulary of the properties\<close>

text \<open>
  \<open>no_faults n mc\<close>: the driver lets the next \<open>n\<close> store operations through.
  \<open>sent col op mc\<close>: the state after the driver has taken one operation.
\<close>

definition no_faults :: "nat \<Rightarrow> MongoClient \<Rightarrow> bool" where
  "no_faults n mc = list_all (\<lambda>f. f = None) (take n (faults mc))"

definition sent :: "string \<Rightarrow> StoreOp \<Rightarrow> MongoClient \<Rightarrow> MongoClient" where
  "sent col op mc = mc\<lparr>issued := issued mc @ [(col, op)], faults := tl (faults mc)\<rparr>"

text \<open>Concrete data for the checks at explicit inputs.\<close>

definition mc0 :: MongoClient where
  "mc0 = \<lparr>event = [], reading = [], valueDescriptor = [], issued = [], faults = [],
          objectIdCounter = 0, UnixNano = 5000000\<rparr>"

definition reading1 :: "nat \<Rightarrow> Reading" where
  "reading1 n = \<lparr>Reading.Id = Oid n, Created = 1, Modified = 0, Device = ''d1'',
                 Name = ''temp'', Value = ''72''\<rparr>"

definition event1 :: "nat \<Rightarrow> Reading list \<Rightarrow> Event" where
  "event1 n rs = \<lparr>ID = Oid n, Pushed = 0, Device = ''d1'', Created = 1, Modified = 0,
                  Readings = rs\<rparr>"

definition descriptor1 :: "ObjectId \<Rightarrow> string \<Rightarrow> string \<Rightarrow> ValueDescriptor" where
  "descriptor1 oid name uom =
     \<lparr>ValueDescriptor.Id = oid, Created = 1, Modified = 0, Name = name, UomLabel = uom,
      Labels = [], Type = ''F''\<rparr>"

text \<open>
  What \<^verbatim>\<open>AddEvent\<close> is expected to write: \<open>stamped t dev c rs\<close> are the Readings \<open>rs\<close>
  carrying the time \<open>t\<close>, the device \<open>dev\<close> and the identifiers \<open>Oid c\<close>, \<open>Oid (c + 1)\<close>, ...;
  \<open>added e mc\<close> is the Event \<open>e\<close> with the identifier and time drawn in state \<open>mc\<close> and its
  Readings stamped.
\<close>

definition stamped :: "int64 \<Rightarrow> string \<Rightarrow> nat \<Rightarrow> Reading list \<Rightarrow> Reading list" where
  "stamped t dev c rs =
     map (\<lambda>(i, r). r\<lparr>Reading.Id := Oid i, Reading.Created := t, Reading.Device := dev\<rparr>)
       (enumerate c rs)"

definition added :: "Event \<Rightarrow> MongoClient \<Rightarrow> Event" where
  "added e mc =
     e\<lparr>Event.Created := nowMillis mc, ID := Oid (objectIdCounter mc),
       Readings := stamped (nowMillis mc) (Event.Device e) (Suc (objectIdCounter mc)) (Readings e)\<rparr>"

text \<open>\<open>sent_n n col op mc\<close>: the state after the driver has taken \<open>n\<close> operations.\<close>

definition sent_n :: "nat \<Rightarrow> string \<Rightarrow> StoreOp \<Rightarrow> MongoClient \<Rightarrow> MongoClient" where
  "sent_n n col op mc = mc\<lparr>issued := issued mc @ replicate n (col, op), faults := drop n (faults mc)\<rparr>"

text \<open>
  \<open>mcV\<close> holds two value descriptors, \<^verbatim>\<open>temp\<close> and \<^verbatim>\<open>hum\<close>; \<open>mcE\<close> holds one Event with
  one Reading.
\<close>

definition mcV :: MongoClient where
  "mcV = mc0\<lparr>valueDescriptor := [descriptor1 (Oid 1) ''temp'' ''C'', descriptor1 (Oid 2) ''hum'' ''pct'']\<rparr>"

definition mcE :: MongoClient where
  "mcE = mc0\<lparr>event := [MongoEvent (event1 1 [reading1 2])], reading := [reading1 2]\<rparr>"

text \<open>\<open>mcL\<close> holds four Readings and four Events, one of each from another device.\<close>

definition mcL :: MongoClient where
  "mcL = mc0\<lparr>reading := [reading1 1, (reading1 2)\<lparr>Reading.Device := ''d2''\<rparr>, reading1 3,
                          reading1 4],
             event := [MongoEvent (event1 5 []),
                       MongoEvent ((event1 6 [])\<lparr>Event.Device := ''d2''\<rparr>),
                       MongoEvent (event1 7 []), MongoEvent (event1 8 [])]\<rparr>"

section \<open>Properties\<close>

subsection \<open>The driver\<close>

lemma driver_eq:
  "driver col op mc = ((case faults mc of [] \<Rightarrow> None | f # _ \<Rightarrow> f), sent col op mc)"
  by (cases "faults mc") (simp_all add: driver_def sent_def)

lemma driver_ok: "no_faults (Suc n) mc \<Longrightarrow> driver col op mc = (None, sent col op mc)"
  by (cases "faults mc") (simp_all add: driver_eq no_faults_def)

lemma no_faults_sent: "no_faults (Suc n) mc \<Longrightarrow> no_faults n (sent col op mc)"
  by (cases "faults mc") (simp_all add: no_faults_def sent_def)

lemma nowMillis_mc0: "nowMillis mc0 = 5"
  by (simp add: nowMillis_def mc0_def go_div64_def)

subsection \<open>Limits\<close>

lemma getEventsLimit_zero: "getEventsLimit q 0 mc = ([], None, mc)"
  by (simp add: getEventsLimit_def)

lemma getReadingsLimit_zero: "getReadingsLimit q 0 mc = ([], None, mc)"
  by (simp add: getReadingsLimit_def)

lemma getEventsLimit_ok:
  "limit \<noteq> 0 \<Longrightarrow> no_faults 1 mc \<Longrightarrow>
   getEventsLimit q limit mc =
     (take (nat \<bar>limit\<bar>) (map Event (filter q (event mc))), None, sent EVENTS_COLLECTION OpFind mc)"
  using driver_ok [of 0 mc EVENTS_COLLECTION OpFind]
  by (simp add: getEventsLimit_def Find_events_Limit_All_def mgo_limit_def take_map sent_def)

lemma getReadingsLimit_ok:
  "limit \<noteq> 0 \<Longrightarrow> no_faults 1 mc \<Longrightarrow>
   getReadingsLimit q limit mc =
     (take (nat \<bar>limit\<bar>) (filter q (reading mc)), None, sent READINGS_COLLECTION OpFind mc)"
  using driver_ok [of 0 mc READINGS_COLLECTION OpFind]
  by (simp add: getReadingsLimit_def Find_readings_Limit_All_def mgo_limit_def sent_def)

lemma getEventsLimit_length: "length (fst (getEventsLimit q limit mc)) \<le> nat \<bar>limit\<bar>"
  by (simp add: getEventsLimit_def Find_events_Limit_All_def mgo_limit_def driver_eq
      split: list.splits option.splits)

lemma getReadingsLimit_length: "length (fst (getReadingsLimit q limit mc)) \<le> nat \<bar>limit\<bar>"
  by (simp add: getReadingsLimit_def Find_readings_Limit_All_def mgo_limit_def driver_eq
      split: list.splits option.splits)

text \<open>
  Claim C2. Each of the seven list operations that take a limit returns the empty list
  and no error at limit 0, whatever the collections hold, and sends nothing to the store.
  With a limit other than 0 and a store that answers, each of the seven returns no error
  and the first \<open>\<bar>limit\<bar>\<close> of the documents that match its filter, in store order: more
  matching documents than the limit are cut off, not reported. In every case, also when
  the store fails, the result is no longer than \<open>\<bar>limit\<bar>\<close>. The same holds of the two
  helpers \<open>getEventsLimit\<close> and \<open>getReadingsLimit\<close> for any filter.
\<close>

theorem limit_zero_is_empty:
  "EventsForDeviceLimit dev 0 mc = ([], None, mc) \<and>
   EventsByCreationTime t1 t2 0 mc = ([], None, mc) \<and>
   ReadingsByDevice dev 0 mc = ([], None, mc) \<and>
   ReadingsByValueDescriptor name 0 mc = ([], None, mc) \<and>
   ReadingsByValueDescriptorNames names 0 mc = ([], None, mc) \<and>
   ReadingsByCreationTime t1 t2 0 mc = ([], None, mc) \<and>
   ReadingsByDeviceAndValueDescriptor dev name 0 mc = ([], None, mc) \<and>
   (limit \<noteq> 0 \<and> no_faults 1 mc \<longrightarrow>
      EventsForDeviceLimit dev limit mc =
        (take (nat \<bar>limit\<bar>)
           (filter (\<lambda>e. Event.Device e = dev) (map Event (event mc))),
         None, sent EVENTS_COLLECTION OpFind mc) \<and>
      EventsByCreationTime t1 t2 limit mc =
        (take (nat \<bar>limit\<bar>)
           (filter (\<lambda>e. t1 \<le>s Event.Created e \<and> Event.Created e \<le>s t2) (map Event (event mc))),
         None, sent EVENTS_COLLECTION OpFind mc) \<and>
      ReadingsByDevice dev limit mc =
        (take (nat \<bar>limit\<bar>) (filter (\<lambda>r. Reading.Device r = dev) (reading mc)),
         None, sent READINGS_COLLECTION OpFind mc) \<and>
      ReadingsByValueDescriptor name limit mc =
        (take (nat \<bar>limit\<bar>) (filter (\<lambda>r. Reading.Name r = name) (reading mc)),
         None, sent READINGS_COLLECTION OpFind mc) \<and>
      ReadingsByValueDescriptorNames names limit mc =
        (take (nat \<bar>limit\<bar>) (filter (\<lambda>r. Reading.Name r \<in> set names) (reading mc)),
         None, sent READINGS_COLLECTION OpFind mc) \<and>
      ReadingsByCreationTime t1 t2 limit mc =
        (take (nat \<bar>limit\<bar>)
           (filter (\<lambda>r. t1 \<le>s Reading.Created r \<and> Reading.Created r \<le>s t2) (reading mc)),
         None, sent READINGS_COLLECTION OpFind mc) \<and>
      ReadingsByDeviceAndValueDescriptor dev name limit mc =
        (take (nat \<bar>limit\<bar>)
           (filter (\<lambda>r. Reading.Device r = dev \<and> Reading.Name r = name) (reading mc)),
         None, sent READINGS_COLLECTION OpFind mc) \<and>
      getEventsLimit qe limit mc =
        (take (nat \<bar>limit\<bar>) (map Event (filter qe (event mc))), None,
         sent EVENTS_COLLECTION OpFind mc) \<and>
      getReadingsLimit qr limit mc =
        (take (nat \<bar>limit\<bar>) (filter qr (reading mc)), None,
         sent READINGS_COLLECTION OpFind mc)) \<and>
   length (fst (EventsForDeviceLimit dev limit mc)) \<le> nat \<bar>limit\<bar> \<and>
   length (fst (EventsByCreationTime t1 t2 limit mc)) \<le> nat \<bar>limit\<bar> \<and>
   length (fst (ReadingsByDevice dev limit mc)) \<le> nat \<bar>limit\<bar> \<and>
   length (fst (ReadingsByValueDescriptor name limit mc)) \<le> nat \<bar>limit\<bar> \<and>
   length (fst (ReadingsByValueDescriptorNames names limit mc)) \<le> nat \<bar>limit\<bar> \<and>
   length (fst (ReadingsByCreationTime t1 t2 limit mc)) \<le> nat \<bar>limit\<bar> \<and>
   length (fst (ReadingsByDeviceAndValueDescriptor dev name limit mc)) \<le> nat \<bar>limit\<bar> \<and>
   length (fst (getEventsLimit qe limit mc)) \<le> nat \<bar>limit\<bar> \<and>
   length (fst (getReadingsLimit qr limit mc)) \<le> nat \<bar>limit\<bar>"
  by (simp add: EventsForDeviceLimit_def EventsByCreationTime_def ReadingsByDevice_def
      ReadingsByValueDescriptor_def ReadingsByValueDescriptorNames_def ReadingsByCreationTime_def
      ReadingsByDeviceAndValueDescriptor_def getEventsLimit_zero getReadingsLimit_zero
      getEventsLimit_ok getReadingsLimit_ok getEventsLimit_length getReadingsLimit_length
      filter_map comp_def)

theorem limit_zero_is_empty_witness:
  "(2::int) \<noteq> 0 \<and> no_faults 1 mcL \<and>
   EventsForDeviceLimit ''d1'' 0 mcL = ([], None, mcL) \<and>
   ReadingsByDevice ''d1'' 0 mcL = ([], None, mcL) \<and>
   EventsForDeviceLimit ''d1'' 2 mcL =
     ([event1 5 [], event1 7 []], None, mcL\<lparr>issued := [(''event'', OpFind)]\<rparr>) \<and>
   EventsByCreationTime 1 1 2 mcL =
     ([event1 5 [], (event1 6 [])\<lparr>Event.Device := ''d2''\<rparr>], None,
      mcL\<lparr>issued := [(''event'', OpFind)]\<rparr>) \<and>
   ReadingsByDevice ''d1'' 2 mcL =
     ([reading1 1, reading1 3], None, mcL\<lparr>issued := [(''reading'', OpFind)]\<rparr>) \<and>
   ReadingsByValueDescriptor ''temp'' 2 mcL =
     ([reading1 1, (reading1 2)\<lparr>Reading.Device := ''d2''\<rparr>], None,
      mcL\<lparr>issued := [(''reading'', OpFind)]\<rparr>) \<and>
   ReadingsByValueDescriptorNames [''hum'', ''temp''] 2 mcL =
     ([reading1 1, (reading1 2)\<lparr>Reading.Device := ''d2''\<rparr>], None,
      mcL\<lparr>issued := [(''reading'', OpFind)]\<rparr>) \<and>
   ReadingsByCreationTime 1 1 2 mcL =
     ([reading1 1, (reading1 2)\<lparr>Reading.Device := ''d2''\<rparr>], None,
      mcL\<lparr>issued := [(''reading'', OpFind)]\<rparr>) \<and>
   ReadingsByDeviceAndValueDescriptor ''d1'' ''temp'' 2 mcL =
     ([reading1 1, reading1 3], None, mcL\<lparr>issued := [(''reading'', OpFind)]\<rparr>)"
proof -
  have h: "(2::int) \<noteq> 0 \<and> no_faults 1 mcL"
    by (simp add: no_faults_def mcL_def mc0_def)
  note t = limit_zero_is_empty
    [where dev = "''d1''" and mc = mcL and limit = 2 and ?t1.0 = 1 and ?t2.0 = 1
       and name = "''temp''" and names = "[''hum'', ''temp'']"
       and qe = "\<lambda>d. True" and qr = "\<lambda>d. True"]
  from t have z: "EventsForDeviceLimit ''d1'' 0 mcL = ([], None, mcL)"
    "ReadingsByDevice ''d1'' 0 mcL = ([], None, mcL)"
    by blast+
  from t h have r:
    "EventsForDeviceLimit ''d1'' 2 mcL =
       (take (nat \<bar>2\<bar>) (filter (\<lambda>e. Event.Device e = ''d1'') (map Event (event mcL))),
        None, sent EVENTS_COLLECTION OpFind mcL)"
    "EventsByCreationTime 1 1 2 mcL =
       (take (nat \<bar>2\<bar>)
          (filter (\<lambda>e. 1 \<le>s Event.Created e \<and> Event.Created e \<le>s 1) (map Event (event mcL))),
        None, sent EVENTS_COLLECTION OpFind mcL)"
    "ReadingsByDevice ''d1'' 2 mcL =
       (take (nat \<bar>2\<bar>) (filter (\<lambda>r. Reading.Device r = ''d1'') (reading mcL)),
        None, sent READINGS_COLLECTION OpFind mcL)"
    "ReadingsByValueDescriptor ''temp'' 2 mcL =
       (take (nat \<bar>2\<bar>) (filter (\<lambda>r. Reading.Name r = ''temp'') (reading mcL)),
        None, sent READINGS_COLLECTION OpFind mcL)"
    "ReadingsByValueDescriptorNames [''hum'', ''temp''] 2 mcL =
       (take (nat \<bar>2\<bar>) (filter (\<lambda>r. Reading.Name r \<in> set [''hum'', ''temp'']) (reading mcL)),
        None, sent READINGS_COLLECTION OpFind mcL)"
    "ReadingsByCreationTime 1 1 2 mcL =
       (take (nat \<bar>2\<bar>)
          (filter (\<lambda>r. 1 \<le>s Reading.Created r \<and> Reading.Created r \<le>s 1) (reading mcL)),
        None, sent READINGS_COLLECTION OpFind mcL)"
    "ReadingsByDeviceAndValueDescriptor ''d1'' ''temp'' 2 mcL =
       (take (nat \<bar>2\<bar>)
          (filter (\<lambda>r. Reading.Device r = ''d1'' \<and> Reading.Name r = ''temp'') (reading mcL)),
        None, sent READINGS_COLLECTION OpFind mcL)"
    by blast+
  show ?thesis
    unfolding z r using h
    by (simp add: mcL_def mc0_def reading1_def event1_def sent_def
        EVENTS_COLLECTION_def READINGS_COLLECTION_def)
qed

subsection \<open>Adding an Event\<close>

lemma stampReadings_eq:
  "stampReadings e rs mc =
     (stamped (Event.Created e) (Event.Device e) (objectIdCounter mc) rs,
      mc\<lparr>objectIdCounter := objectIdCounter mc + length rs\<rparr>)"
  by (induction rs arbitrary: mc) (simp_all add: NewObjectId_def stamped_def)

lemma length_stamped [simp]: "length (stamped t dev c rs) = length rs"
  by (simp add: stamped_def)

lemma stamped_Nil [simp]: "stamped t dev c [] = []"
  by (simp add: stamped_def)

lemma stamped_eq_Nil [simp]: "stamped t dev c rs = [] \<longleftrightarrow> rs = []"
  by (cases rs) (simp_all add: stamped_def)



lemma AddEvent_no_readings:
  "Readings e = [] \<Longrightarrow>
   AddEvent e mc =
     (added e mc, Oid (objectIdCounter mc),
      map_option MgoError (case faults mc of [] \<Rightarrow> None | f # _ \<Rightarrow> f),
      (sent EVENTS_COLLECTION OpInsert (mc\<lparr>objectIdCounter := Suc (objectIdCounter mc)\<rparr>))
        \<lparr>event := (case (case faults mc of [] \<Rightarrow> None | f # _ \<Rightarrow> f) of
                     None \<Rightarrow> event mc @ [MongoEvent (added e mc)] | Some _ \<Rightarrow> event mc)\<rparr>)"
  by (cases "faults mc")
     (auto simp: AddEvent_def NewObjectId_def Insert_event_def driver_eq sent_def added_def Let_def
      nowMillis_def split: option.splits)


lemma AddEvent_event_fails:
  "Readings e \<noteq> [] \<Longrightarrow> faults mc = None # Some msg # fs \<Longrightarrow>
   AddEvent e mc =
     (added e mc, Oid (objectIdCounter mc), Some (MgoError msg),
      mc\<lparr>objectIdCounter := Suc (objectIdCounter mc) + length (Readings e),
         reading := reading mc @ Readings (added e mc),
         issued := issued mc @ [(READINGS_COLLECTION, OpInsert), (EVENTS_COLLECTION, OpInsert)],
         faults := fs\<rparr>)"
  by (simp add: AddEvent_def NewObjectId_def Insert_event_def Insert_readings_def
      stampReadings_eq driver_def added_def Let_def)

lemma AddEvent_success:
  assumes "AddEvent e mc = (e', oid, None, mc')"
  shows "e' = added e mc \<and> oid = Oid (objectIdCounter mc) \<and>
         reading mc' = reading mc @ Readings e' \<and>
         event mc' = event mc @ [MongoEvent e'] \<and>
         valueDescriptor mc' = valueDescriptor mc \<and>
         issued mc' =
           issued mc @ (if Readings e = [] then [] else [(READINGS_COLLECTION, OpInsert)]) @
           [(EVENTS_COLLECTION, OpInsert)]"
proof (cases "Readings e = []")
  case True
  with assms show ?thesis
    by (auto simp: AddEvent_no_readings sent_def added_def split: list.splits option.splits)
next
  case False
  with assms show ?thesis
    by (auto simp: AddEvent_def NewObjectId_def Insert_event_def Insert_readings_def
        stampReadings_eq driver_def added_def Let_def split: list.splits option.splits)
qed




lemmas AddEvent_eval =
  AddEvent_def NewObjectId_def Insert_event_def Insert_readings_def driver_def Let_def
  nowMillis_def go_div64_def mc0_def event1_def reading1_def EVENTS_COLLECTION_def
  READINGS_COLLECTION_def numeral_2_eq_2


text \<open>
  Claim C4. When the Event has Readings, the insert of the Readings goes through and the
  insert of the Event fails, \<^verbatim>\<open>AddEvent\<close> returns the driver's error, the event collection
  is as before, and the reading collection keeps the Readings just inserted: both
  inserts were sent and nothing was taken back.
\<close>

theorem AddEvent_keeps_readings_when_event_insert_fails:
  "Readings e \<noteq> [] \<Longrightarrow> faults mc = None # Some msg # fs \<Longrightarrow>
   (case AddEvent e mc of
      (e', oid, err, mc') \<Rightarrow>
        err = Some (MgoError msg) \<and> oid = ID e' \<and>
        Readings e' \<noteq> [] \<and> length (Readings e') = length (Readings e) \<and>
        reading mc' = reading mc @ Readings e' \<and>
        event mc' = event mc \<and>
        issued mc' =
          issued mc @ [(READINGS_COLLECTION, OpInsert), (EVENTS_COLLECTION, OpInsert)])"
  by (simp add: AddEvent_event_fails added_def)

theorem AddEvent_keeps_readings_when_event_insert_fails_witness:
  "Readings (event1 7 [reading1 8]) \<noteq> [] \<and>
   faults (mc0\<lparr>faults := [None, Some ''down'']\<rparr>) = None # Some ''down'' # [] \<and>
   fst (snd (snd (AddEvent (event1 7 [reading1 8]) (mc0\<lparr>faults := [None, Some ''down'']\<rparr>)))) =
     Some (MgoError ''down'') \<and>
   reading (snd (snd (snd (AddEvent (event1 7 [reading1 8])
                             (mc0\<lparr>faults := [None, Some ''down'']\<rparr>))))) =
     [(reading1 1)\<lparr>Reading.Created := 5\<rparr>] \<and>
   event (snd (snd (snd (AddEvent (event1 7 [reading1 8])
                           (mc0\<lparr>faults := [None, Some ''down'']\<rparr>))))) = []"
  using AddEvent_keeps_readings_when_event_insert_fails
    [of "event1 7 [reading1 8]" "mc0\<lparr>faults := [None, Some ''down'']\<rparr>" "''down''" "[]"]
  by (simp add: AddEvent_eval)

text \<open>
  Claim C10. For an Event without Readings, \<^verbatim>\<open>AddEvent\<close> sends exactly one operation to
  the store, the insert into the event collection; the reading collection is unchanged,
  and when the store answers the Event is appended to the event collection.
\<close>

theorem AddEvent_without_readings:
  "Readings e = [] \<Longrightarrow>
   (case AddEvent e mc of
      (e', oid, err, mc') \<Rightarrow>
        reading mc' = reading mc \<and>
        issued mc' = issued mc @ [(EVENTS_COLLECTION, OpInsert)] \<and>
        (no_faults 1 mc \<longrightarrow> err = None \<and> event mc' = event mc @ [MongoEvent e']))"
  by (cases "faults mc") (simp_all add: AddEvent_no_readings sent_def no_faults_def)

theorem AddEvent_without_readings_witness:
  "Readings (event1 7 []) = [] \<and> no_faults 1 (mc0\<lparr>reading := [reading1 3]\<rparr>) \<and>
   AddEvent (event1 7 []) (mc0\<lparr>reading := [reading1 3]\<rparr>) =
     ((event1 0 [])\<lparr>Event.Created := 5\<rparr>, Oid 0, None,
      mc0\<lparr>reading := [reading1 3], event := [MongoEvent ((event1 0 [])\<lparr>Event.Created := 5\<rparr>)],
          issued := [(''event'', OpInsert)], objectIdCounter := 1\<rparr>)"
  using AddEvent_without_readings [of "event1 7 []" "mc0\<lparr>reading := [reading1 3]\<rparr>"]
  by (simp add: AddEvent_eval no_faults_def)

subsection \<open>Identifier validation\<close>

lemma not_hex_example: "\<not> IsObjectIdHex ''not-a-hex-id''"
  by (simp add: IsObjectIdHex_def)

text \<open>
  Claim C5, as the code has it. The operations that take the identifier as a string (get
  by id and delete by id on the three entity types, and the shared \<open>deleteById\<close> on any
  collection) answer a string that is not a well-formed object-id hex string with
  \<open>ErrInvalidObjectId\<close> and leave the whole client state, the record of issued store
  operations included, as it was. The check \<open>IsObjectIdHex\<close> is a function of the string
  alone.
\<close>

theorem invalid_id_rejected:
  "\<not> IsObjectIdHex id' \<Longrightarrow>
   EventById id' mc = (Event_zero, Some ErrInvalidObjectId, mc) \<and>
   ReadingById id' mc = (Reading_zero, Some ErrInvalidObjectId, mc) \<and>
   ValueDescriptorById id' mc = (ValueDescriptor_zero, Some ErrInvalidObjectId, mc) \<and>
   DeleteEventById id' mc = (Some ErrInvalidObjectId, mc) \<and>
   DeleteReadingById id' mc = (Some ErrInvalidObjectId, mc) \<and>
   DeleteValueDescriptorById id' mc = (Some ErrInvalidObjectId, mc) \<and>
   deleteById id' col mc = (Some ErrInvalidObjectId, mc)"
  by (simp add: EventById_def ReadingById_def ValueDescriptorById_def DeleteEventById_def
      DeleteReadingById_def DeleteValueDescriptorById_def deleteById_def)

theorem invalid_id_rejected_witness:
  "\<not> IsObjectIdHex ''not-a-hex-id'' \<and>
   DeleteReadingById ''not-a-hex-id'' (mc0\<lparr>reading := [reading1 3]\<rparr>) =
     (Some ErrInvalidObjectId, mc0\<lparr>reading := [reading1 3]\<rparr>) \<and>
   issued (snd (DeleteReadingById ''not-a-hex-id'' (mc0\<lparr>reading := [reading1 3]\<rparr>))) = []"
  using invalid_id_rejected [of "''not-a-hex-id''" "mc0\<lparr>reading := [reading1 3]\<rparr>"]
  by (simp add: IsObjectIdHex_def mc0_def)

text \<open>
  Claim C5 as stated also covers the update operations. These take the entity, whose
  identifier is a \<^verbatim>\<open>bson.ObjectId\<close>, and check nothing: \<^verbatim>\<open>UpdateReading\<close> of a Reading
  whose identifier is the zero value (not a well-formed identifier) sends \<^verbatim>\<open>UpdateId\<close> to
  the store and does not return \<open>ErrInvalidObjectId\<close>.
\<close>

theorem update_skips_id_validation:
  "Reading.Id Reading_zero = NoId \<and>
   fst (UpdateReading Reading_zero mc0) \<noteq> Some ErrInvalidObjectId \<and>
   issued (snd (UpdateReading Reading_zero mc0)) = [(''reading'', OpUpdateId)]"
  by (simp add: UpdateReading_def UpdateId_reading_def driver_def Reading_zero_def mc0_def
      READINGS_COLLECTION_def Let_def)

subsection \<open>Adding a value descriptor\<close>

text \<open>
  Claim C1. With a descriptor named \<^verbatim>\<open>temp\<close> (unit \<^verbatim>\<open>C\<close>) in the store, adding another
  descriptor named \<^verbatim>\<open>temp\<close> (unit \<^verbatim>\<open>F\<close>) returns \<open>ErrNotUnique\<close> and leaves one document
  in the collection, but that document is no longer the stored one: the upsert has
  replaced its contents by the caller's payload before the duplicate is reported.
\<close>

theorem AddValueDescriptor_duplicate_overwrites:
  "AddValueDescriptor (descriptor1 NoId ''temp'' ''F'')
     (mc0\<lparr>valueDescriptor := [descriptor1 (Oid 9) ''temp'' ''C'']\<rparr>) =
   (NoId, Some ErrNotUnique,
    mc0\<lparr>valueDescriptor := [(descriptor1 (Oid 9) ''temp'' ''F'')\<lparr>ValueDescriptor.Created := 5\<rparr>],
        issued := [(''valueDescriptor'', OpUpsert)]\<rparr>) \<and>
   [(descriptor1 (Oid 9) ''temp'' ''F'')\<lparr>ValueDescriptor.Created := 5\<rparr>] \<noteq>
   [descriptor1 (Oid 9) ''temp'' ''C'']"
  by (simp add: AddValueDescriptor_def Upsert_valueDescriptor_def driver_def descriptor1_def
      mc0_def nowMillis_def go_div64_def VALUE_DESCRIPTOR_COLLECTION_def Let_def)

subsection \<open>Value descriptors: update and lookup by names\<close>

lemma find_distinct_key:
  "distinct (map f xs) \<Longrightarrow> d \<in> set xs \<Longrightarrow> List.find (\<lambda>x. f x = f d) xs = Some d"
  by (induction xs) (auto simp: image_iff)

lemma replace_first_None_iff: "replace_first p y xs = None \<longleftrightarrow> (\<forall>x \<in> set xs. \<not> p x)"
  by (induction xs) auto

lemma replace_first_distinct_key:
  "distinct (map f xs) \<Longrightarrow> \<exists>x \<in> set xs. f x = k \<Longrightarrow>
   replace_first (\<lambda>x. f x = k) y xs = Some (map (\<lambda>x. if f x = k then y else x) xs)"
proof (induction xs)
  case Nil
  then show ?case by simp
next
  case (Cons a xs)
  show ?case
  proof (cases "f a = k")
    case True
    with Cons.prems(1) have "\<forall>x \<in> set xs. f x \<noteq> k" by (auto simp: image_iff)
    then have "map (\<lambda>x. if f x = k then y else x) xs = xs" by (simp add: map_idI)
    with True show ?thesis by simp
  next
    case False
    with Cons show ?thesis by auto
  qed
qed

lemma getValueDescriptor_ok:
  "no_faults (Suc n) mc \<Longrightarrow>
   getValueDescriptor q mc =
     (case List.find q (valueDescriptor mc) of
        None \<Rightarrow> (ValueDescriptor_zero, Some ErrNotFound, sent VALUE_DESCRIPTOR_COLLECTION OpFind mc)
      | Some d \<Rightarrow> (d, None, sent VALUE_DESCRIPTOR_COLLECTION OpFind mc))"
  by (simp add: getValueDescriptor_def Find_valueDescriptors_One_def driver_ok sent_def
      split: option.splits)

lemma UpdateId_valueDescriptor_ok:
  "no_faults (Suc n) mc \<Longrightarrow>
   UpdateId_valueDescriptor oid v mc =
     (case replace_first (\<lambda>d. ValueDescriptor.Id d = oid) v (valueDescriptor mc) of
        None \<Rightarrow> (Some MgoErrNotFound, sent VALUE_DESCRIPTOR_COLLECTION OpUpdateId mc)
      | Some docs \<Rightarrow>
          (None, (sent VALUE_DESCRIPTOR_COLLECTION OpUpdateId mc)\<lparr>valueDescriptor := docs\<rparr>))"
  by (simp add: UpdateId_valueDescriptor_def driver_ok sent_def split: option.splits)

lemma sent_fields [simp]:
  "event (sent col op mc) = event mc" "reading (sent col op mc) = reading mc"
  "valueDescriptor (sent col op mc) = valueDescriptor mc"
  "issued (sent col op mc) = issued mc @ [(col, op)]"
  "faults (sent col op mc) = tl (faults mc)"
  "objectIdCounter (sent col op mc) = objectIdCounter mc"
  "UnixNano (sent col op mc) = UnixNano mc"
  by (simp_all add: sent_def)

lemma nowMillis_sent [simp]: "nowMillis (sent col op mc) = nowMillis mc"
  by (simp add: nowMillis_def)


lemma find_SomeD: "List.find p xs = Some x \<Longrightarrow> p x \<and> x \<in> set xs"
  by (induction xs) (auto split: if_splits)

text \<open>
  Claim C6. In a collection where names and identifiers are unique, and with a store that
  answers, \<^verbatim>\<open>UpdateValueDescriptor v\<close> does one of three things. If a stored document with
  another identifier than \<open>v\<close> has \<open>v\<close>'s name, it returns \<open>ErrNotUnique\<close> and no collection
  changes. Otherwise, if a document with \<open>v\<close>'s identifier is stored, it is replaced by \<open>v\<close>
  with the modification time set to now, and no error is returned. Otherwise it returns
  \<open>ErrNotFound\<close> and no collection changes.
\<close>

theorem UpdateValueDescriptor_unique_name:
  assumes names: "distinct (map ValueDescriptor.Name (valueDescriptor mc))"
    and ids: "distinct (map ValueDescriptor.Id (valueDescriptor mc))"
    and ok: "no_faults 2 mc"
  shows "case UpdateValueDescriptor v mc of
           (err, mc') \<Rightarrow>
             event mc' = event mc \<and> reading mc' = reading mc \<and>
             (if \<exists>d \<in> set (valueDescriptor mc).
                   ValueDescriptor.Name d = ValueDescriptor.Name v \<and>
                   ValueDescriptor.Id d \<noteq> ValueDescriptor.Id v
              then err = Some ErrNotUnique \<and> valueDescriptor mc' = valueDescriptor mc
              else if \<exists>d \<in> set (valueDescriptor mc). ValueDescriptor.Id d = ValueDescriptor.Id v
              then err = None \<and>
                   valueDescriptor mc' =
                     map (\<lambda>d. if ValueDescriptor.Id d = ValueDescriptor.Id v
                               then v\<lparr>ValueDescriptor.Modified := nowMillis mc\<rparr> else d)
                       (valueDescriptor mc)
              else err = Some ErrNotFound \<and> valueDescriptor mc' = valueDescriptor mc)"
proof -
  let ?vds = "valueDescriptor mc"
  let ?mc1 = "sent VALUE_DESCRIPTOR_COLLECTION OpFind mc"
  have ok1: "no_faults (Suc 1) mc" using ok by (simp add: numeral_2_eq_2)
  have ok2: "no_faults (Suc 0) ?mc1" using no_faults_sent [OF ok1] by simp
  note get = getValueDescriptor_ok [OF ok1]
  note upd = UpdateId_valueDescriptor_ok [OF ok2]
  show ?thesis
  proof (cases "\<exists>d \<in> set ?vds. ValueDescriptor.Name d = ValueDescriptor.Name v \<and>
                                  ValueDescriptor.Id d \<noteq> ValueDescriptor.Id v")
    case True
    then obtain d where d: "d \<in> set ?vds" "ValueDescriptor.Name d = ValueDescriptor.Name v"
      "ValueDescriptor.Id d \<noteq> ValueDescriptor.Id v" by blast
    from find_distinct_key [OF names d(1)] d(2)
    have "List.find (\<lambda>x. ValueDescriptor.Name x = ValueDescriptor.Name v) ?vds = Some d" by simp
    moreover from True
    have "(\<exists>d \<in> set ?vds. ValueDescriptor.Name d = ValueDescriptor.Name v \<and>
                      ValueDescriptor.Id d \<noteq> ValueDescriptor.Id v) = True" by simp
    ultimately show ?thesis using d(3)
      by (simp add: UpdateValueDescriptor_def get)
  next
    case False
    then have c1: "(\<exists>d \<in> set ?vds. ValueDescriptor.Name d = ValueDescriptor.Name v \<and>
                      ValueDescriptor.Id d \<noteq> ValueDescriptor.Id v) = False" by blast
    have owner: "ValueDescriptor.Id d = ValueDescriptor.Id v"
      if "List.find (\<lambda>x. ValueDescriptor.Name x = ValueDescriptor.Name v) ?vds = Some d" for d
      using find_SomeD [OF that] False by blast
    have step: "UpdateValueDescriptor v mc =
      (case UpdateId_valueDescriptor (ValueDescriptor.Id v)
              (v\<lparr>ValueDescriptor.Modified := nowMillis mc\<rparr>) ?mc1 of
         (err', mc2) \<Rightarrow>
           if err' = Some MgoErrNotFound then (Some ErrNotFound, mc2) else (err', mc2))"
    proof (cases "List.find (\<lambda>x. ValueDescriptor.Name x = ValueDescriptor.Name v) ?vds")
      case None
      then show ?thesis by (simp add: UpdateValueDescriptor_def get Let_def)
    next
      case (Some d)
      with owner [OF Some] show ?thesis by (simp add: UpdateValueDescriptor_def get Let_def)
    qed
    show ?thesis
    proof (cases "\<exists>d \<in> set ?vds. ValueDescriptor.Id d = ValueDescriptor.Id v")
      case True
      then have c2: "(\<exists>d \<in> set ?vds. ValueDescriptor.Id d = ValueDescriptor.Id v) = True"
        by simp
      from replace_first_distinct_key [OF ids True]
      have "replace_first (\<lambda>d. ValueDescriptor.Id d = ValueDescriptor.Id v)
              (v\<lparr>ValueDescriptor.Modified := nowMillis mc\<rparr>) ?vds =
            Some (map (\<lambda>d. if ValueDescriptor.Id d = ValueDescriptor.Id v
                            then v\<lparr>ValueDescriptor.Modified := nowMillis mc\<rparr> else d) ?vds)" .
      then show ?thesis
        by (simp add: step upd c1 c2)
    next
      case noid: False
      then have c2: "(\<exists>d \<in> set ?vds. ValueDescriptor.Id d = ValueDescriptor.Id v) = False"
        by simp
      from noid have "replace_first (\<lambda>d. ValueDescriptor.Id d = ValueDescriptor.Id v)
              (v\<lparr>ValueDescriptor.Modified := nowMillis mc\<rparr>) ?vds = None"
        by (simp add: replace_first_None_iff)
      then show ?thesis
        by (simp add: step upd c1 c2)
    qed
  qed
qed


lemma sent_n_0: "sent_n 0 col op mc = mc"
  by (simp add: sent_n_def)

lemma sent_n_Suc: "sent_n n col op (sent col op mc) = sent_n (Suc n) col op mc"
  by (simp add: sent_n_def sent_def drop_Suc replicate_append_same)

lemma ValueDescriptorByName_ok:
  "no_faults (Suc n) mc \<Longrightarrow>
   ValueDescriptorByName name mc =
     (case List.find (\<lambda>d. ValueDescriptor.Name d = name) (valueDescriptor mc) of
        None \<Rightarrow> (ValueDescriptor_zero, Some ErrNotFound, sent VALUE_DESCRIPTOR_COLLECTION OpFind mc)
      | Some d \<Rightarrow> (d, None, sent VALUE_DESCRIPTOR_COLLECTION OpFind mc))"
  by (simp add: ValueDescriptorByName_def getValueDescriptor_ok)

lemma ValueDescriptorByName_fault:
  "faults mc = Some msg # fs \<Longrightarrow>
   ValueDescriptorByName name mc =
     (ValueDescriptor_zero, Some (MgoError msg), sent VALUE_DESCRIPTOR_COLLECTION OpFind mc)"
  by (simp add: ValueDescriptorByName_def getValueDescriptor_def Find_valueDescriptors_One_def
      driver_eq)

lemma loop_ok:
  "no_faults (length names) mc \<Longrightarrow>
   ValueDescriptorsByName_loop names vList mc =
     (vList @ List.map_filter
                (\<lambda>name. List.find (\<lambda>d. ValueDescriptor.Name d = name) (valueDescriptor mc)) names,
      None, sent_n (length names) VALUE_DESCRIPTOR_COLLECTION OpFind mc)"
proof (induction names arbitrary: vList mc)
  case Nil
  then show ?case by (simp add: sent_n_0 map_filter_simps)
next
  case (Cons name names)
  from Cons.prems have ok: "no_faults (Suc (length names)) mc" by simp
  note ih = Cons.IH [OF no_faults_sent [OF ok]]
  show ?case
    by (cases "List.find (\<lambda>d. ValueDescriptor.Name d = name) (valueDescriptor mc)")
       (simp_all add: ValueDescriptorByName_ok [OF ok] ih sent_n_Suc map_filter_simps)
qed

lemma loop_abort:
  "k < length names \<Longrightarrow> no_faults k mc \<Longrightarrow> k < length (faults mc) \<Longrightarrow>
   faults mc ! k = Some msg \<Longrightarrow>
   ValueDescriptorsByName_loop names vList mc =
     ([], Some (MgoError msg), sent_n (Suc k) VALUE_DESCRIPTOR_COLLECTION OpFind mc)"
proof (induction names arbitrary: k vList mc)
  case Nil
  then show ?case by simp
next
  case (Cons name names)
  show ?case
  proof (cases k)
    case 0
    with Cons.prems obtain fs where "faults mc = Some msg # fs"
      by (cases "faults mc") simp_all
    from ValueDescriptorByName_fault [OF this] 0 show ?thesis
      by (simp add: sent_n_Suc [symmetric] sent_n_0)
  next
    case (Suc k')
    with Cons.prems have ok: "no_faults (Suc k') mc" by simp
    let ?mc1 = "sent VALUE_DESCRIPTOR_COLLECTION OpFind mc"
    from Cons.prems Suc have "k' < length names" "k' < length (faults ?mc1)"
      "faults ?mc1 ! k' = Some msg"
      by (simp_all add: nth_tl)
    note ih = Cons.IH [OF this(1) no_faults_sent [OF ok] this(2,3)]
    show ?thesis
      by (cases "List.find (\<lambda>d. ValueDescriptor.Name d = name) (valueDescriptor mc)")
         (simp_all add: ValueDescriptorByName_ok [OF ok] ih sent_n_Suc Suc)
  qed
qed

text \<open>
  Claim C7. \<^verbatim>\<open>ValueDescriptorsByName\<close> looks the names up one after the other. When the
  store answers every lookup, the result is, in the order of the names, the descriptor
  found for each name that has one (names without a descriptor are left out), with no
  error, after one lookup per name. When the lookup number \<open>k\<close> (counting from 0) is the
  first that fails with an error other than not-found, the result is the empty list and
  that error, and no lookup is made after it.
\<close>

theorem ValueDescriptorsByName_sequential:
  "(no_faults (length names) mc \<longrightarrow>
      ValueDescriptorsByName names mc =
        (List.map_filter
           (\<lambda>name. List.find (\<lambda>d. ValueDescriptor.Name d = name) (valueDescriptor mc)) names,
         None, sent_n (length names) VALUE_DESCRIPTOR_COLLECTION OpFind mc)) \<and>
   (k < length names' \<and> no_faults k mc' \<and> k < length (faults mc') \<and>
    faults mc' ! k = Some msg \<longrightarrow>
      ValueDescriptorsByName names' mc' =
        ([], Some (MgoError msg), sent_n (Suc k) VALUE_DESCRIPTOR_COLLECTION OpFind mc'))"
  by (simp add: ValueDescriptorsByName_def loop_ok loop_abort)

lemmas vd_eval =
  getValueDescriptor_def Find_valueDescriptors_One_def UpdateId_valueDescriptor_def driver_def
  mcV_def mc0_def descriptor1_def nowMillis_def go_div64_def VALUE_DESCRIPTOR_COLLECTION_def
  no_faults_def Let_def ValueDescriptorByName_def


theorem ValueDescriptorsByName_sequential_witness:
  "no_faults (length [''temp'', ''nope'', ''hum'']) mcV \<and>
   (1::nat) < length [''temp'', ''nope'', ''hum''] \<and>
   no_faults 1 (mcV\<lparr>faults := [None, Some ''down'', None]\<rparr>) \<and>
   1 < length (faults (mcV\<lparr>faults := [None, Some ''down'', None]\<rparr>)) \<and>
   faults (mcV\<lparr>faults := [None, Some ''down'', None]\<rparr>) ! 1 = Some ''down'' \<and>
   ValueDescriptorsByName [''temp'', ''nope'', ''hum''] mcV =
     ([descriptor1 (Oid 1) ''temp'' ''C'', descriptor1 (Oid 2) ''hum'' ''pct''], None,
      mcV\<lparr>issued := [(''valueDescriptor'', OpFind), (''valueDescriptor'', OpFind),
                      (''valueDescriptor'', OpFind)]\<rparr>) \<and>
   ValueDescriptorsByName [''temp'', ''nope'', ''hum'']
       (mcV\<lparr>faults := [None, Some ''down'', None]\<rparr>) =
     ([], Some (MgoError ''down''),
      mcV\<lparr>issued := [(''valueDescriptor'', OpFind), (''valueDescriptor'', OpFind)],
          faults := [None]\<rparr>)"
proof -
  let ?names = "[''temp'', ''nope'', ''hum'']"
  let ?mcF = "mcV\<lparr>faults := [None, Some ''down'', None]\<rparr>"
  have a: "no_faults (length ?names) mcV"
    and b: "(1::nat) < length ?names" "no_faults 1 ?mcF" "1 < length (faults ?mcF)"
      "faults ?mcF ! 1 = Some ''down''"
    by (simp_all add: no_faults_def mcV_def mc0_def)
  from ValueDescriptorsByName_sequential [of ?names mcV 1 ?names ?mcF "''down''"] a b
  have r: "ValueDescriptorsByName ?names mcV =
        (List.map_filter
           (\<lambda>name. List.find (\<lambda>d. ValueDescriptor.Name d = name) (valueDescriptor mcV)) ?names,
         None, sent_n (length ?names) VALUE_DESCRIPTOR_COLLECTION OpFind mcV)"
    "ValueDescriptorsByName ?names ?mcF =
        ([], Some (MgoError ''down''), sent_n (Suc 1) VALUE_DESCRIPTOR_COLLECTION OpFind ?mcF)"
    by blast+
  show ?thesis
    unfolding r using a b
    by (simp add: sent_n_def map_filter_simps mcV_def mc0_def descriptor1_def
        VALUE_DESCRIPTOR_COLLECTION_def)
qed

theorem UpdateValueDescriptor_unique_name_witness:
  "distinct (map ValueDescriptor.Name (valueDescriptor mcV)) \<and>
   distinct (map ValueDescriptor.Id (valueDescriptor mcV)) \<and> no_faults 2 mcV \<and>
   UpdateValueDescriptor (descriptor1 (Oid 2) ''temp'' ''X'') mcV =
     (Some ErrNotUnique, mcV\<lparr>issued := [(''valueDescriptor'', OpFind)]\<rparr>) \<and>
   UpdateValueDescriptor (descriptor1 (Oid 2) ''wet'' ''X'') mcV =
     (None,
      mcV\<lparr>valueDescriptor :=
            [descriptor1 (Oid 1) ''temp'' ''C'',
             (descriptor1 (Oid 2) ''wet'' ''X'')\<lparr>ValueDescriptor.Modified := 5\<rparr>],
          issued := [(''valueDescriptor'', OpFind), (''valueDescriptor'', OpUpdateId)]\<rparr>) \<and>
   UpdateValueDescriptor (descriptor1 (Oid 3) ''new'' ''X'') mcV =
     (Some ErrNotFound,
      mcV\<lparr>issued := [(''valueDescriptor'', OpFind), (''valueDescriptor'', OpUpdateId)]\<rparr>)"
  using UpdateValueDescriptor_unique_name [of mcV "descriptor1 (Oid 2) ''temp'' ''X''"]
    UpdateValueDescriptor_unique_name [of mcV "descriptor1 (Oid 2) ''wet'' ''X''"]
    UpdateValueDescriptor_unique_name [of mcV "descriptor1 (Oid 3) ''new'' ''X''"]
  by (simp add: vd_eval UpdateValueDescriptor_def)

subsection \<open>Updating an Event, and Events older than an age\<close>

lemma UpdateId_event_ok:
  "no_faults (Suc n) mc \<Longrightarrow>
   UpdateId_event oid me mc =
     (case replace_first (\<lambda>d. ID (Event d) = oid) me (event mc) of
        None \<Rightarrow> (Some MgoErrNotFound, sent EVENTS_COLLECTION OpUpdateId mc)
      | Some docs \<Rightarrow> (None, (sent EVENTS_COLLECTION OpUpdateId mc)\<lparr>event := docs\<rparr>))"
  by (simp add: UpdateId_event_def driver_ok sent_def split: option.splits)

lemma UpdateEvent_frame:
  "reading (snd (UpdateEvent e mc)) = reading mc \<and>
   valueDescriptor (snd (UpdateEvent e mc)) = valueDescriptor mc \<and>
   issued (snd (UpdateEvent e mc)) = issued mc @ [(EVENTS_COLLECTION, OpUpdateId)]"
  by (simp add: UpdateEvent_def UpdateId_event_def driver_eq Let_def
      split: option.splits list.splits)

text \<open>
  Claim C8, as the code has it. \<^verbatim>\<open>UpdateEvent\<close> sends one \<^verbatim>\<open>UpdateId\<close> to the event
  collection and never touches the reading collection. With unique identifiers and a
  store that answers, the stored document with the Event's identifier is replaced by the
  caller's Event with the modification time set to now, and \<open>ErrNotFound\<close> is returned
  (and nothing changes) when no such document is stored. The Readings held by the stored
  Events are the same after the update provided the caller's Event carries the Readings
  of the stored Event it replaces.
\<close>

theorem UpdateEvent_replaces_document:
  assumes ids: "distinct (map (\<lambda>d. ID (Event d)) (event mc))" and ok: "no_faults 1 mc"
  shows "case UpdateEvent e mc of
           (err, mc') \<Rightarrow>
             reading mc' = reading mc \<and>
             issued mc' = issued mc @ [(EVENTS_COLLECTION, OpUpdateId)] \<and>
             (if \<exists>d \<in> set (event mc). ID (Event d) = ID e
              then err = None \<and>
                   event mc' =
                     map (\<lambda>d. if ID (Event d) = ID e
                               then MongoEvent (e\<lparr>Event.Modified := nowMillis mc\<rparr>) else d)
                       (event mc)
              else err = Some ErrNotFound \<and> event mc' = event mc) \<and>
             ((\<forall>d \<in> set (event mc). ID (Event d) = ID e \<longrightarrow> Readings (Event d) = Readings e) \<longrightarrow>
                map (\<lambda>d. Readings (Event d)) (event mc') = map (\<lambda>d. Readings (Event d)) (event mc))"
proof -
  have ok1: "no_faults (Suc 0) mc" using ok by simp
  note upd = UpdateId_event_ok [OF ok1]
  let ?me = "MongoEvent (e\<lparr>Event.Modified := nowMillis mc\<rparr>)"
  show ?thesis
  proof (cases "\<exists>d \<in> set (event mc). ID (Event d) = ID e")
    case True
    then have c: "(\<exists>d \<in> set (event mc). ID (Event d) = ID e) = True" by simp
    from replace_first_distinct_key [OF ids True]
    have rep: "replace_first (\<lambda>d. ID (Event d) = ID e) ?me (event mc) =
          Some (map (\<lambda>d. if ID (Event d) = ID e then ?me else d) (event mc))" .
    have same: "map (\<lambda>d. Readings (Event d))
                  (map (\<lambda>d. if ID (Event d) = ID e then ?me else d) (event mc)) =
                map (\<lambda>d. Readings (Event d)) (event mc)"
      if "\<forall>d \<in> set (event mc). ID (Event d) = ID e \<longrightarrow> Readings (Event d) = Readings e"
      using that by (induction "event mc") auto
    show ?thesis
      using same by (simp add: UpdateEvent_def upd rep c Let_def)
  next
    case False
    then have c: "(\<exists>d \<in> set (event mc). ID (Event d) = ID e) = False" by simp
    from False have rep: "replace_first (\<lambda>d. ID (Event d) = ID e) ?me (event mc) = None"
      by (simp add: replace_first_None_iff)
    show ?thesis
      by (simp add: UpdateEvent_def upd rep c Let_def)
  qed
qed



lemmas event_eval =
  UpdateEvent_def UpdateId_event_def driver_def mcE_def mc0_def event1_def reading1_def
  nowMillis_def go_div64_def EVENTS_COLLECTION_def READINGS_COLLECTION_def no_faults_def Let_def

theorem UpdateEvent_replaces_document_witness:
  "distinct (map (\<lambda>d. ID (Event d)) (event mcE)) \<and> no_faults 1 mcE \<and>
   Readings (Event (hd (event mcE))) = Readings ((event1 1 [reading1 2])\<lparr>Event.Device := ''d2''\<rparr>) \<and>
   UpdateEvent ((event1 1 [reading1 2])\<lparr>Event.Device := ''d2''\<rparr>) mcE =
     (None,
      mcE\<lparr>event := [MongoEvent ((event1 1 [reading1 2])\<lparr>Event.Device := ''d2'',
                                                         Event.Modified := 5\<rparr>)],
          issued := [(''event'', OpUpdateId)]\<rparr>) \<and>
   UpdateEvent (event1 3 []) mcE = (Some ErrNotFound, mcE\<lparr>issued := [(''event'', OpUpdateId)]\<rparr>)"
  using UpdateEvent_replaces_document [of mcE "(event1 1 [reading1 2])\<lparr>Event.Device := ''d2''\<rparr>"]
    UpdateEvent_replaces_document [of mcE "event1 3 []"]
  by (simp add: event_eval)

text \<open>
  Claim C8 as stated says that the Readings of the stored Event are never changed by an
  update. The stored Event with identifier 1 holds one Reading; updating with an Event
  of that identifier and no Readings succeeds and leaves the stored Event without
  Readings (the reading collection itself is unchanged).
\<close>

theorem UpdateEvent_replaces_stored_readings:
  "ID (Event (hd (event mcE))) = Oid 1 \<and>
   Readings (Event (hd (event mcE))) = [reading1 2] \<and>
   fst (UpdateEvent (event1 1 []) mcE) = None \<and>
   ID (Event (hd (event (snd (UpdateEvent (event1 1 []) mcE))))) = Oid 1 \<and>
   Readings (Event (hd (event (snd (UpdateEvent (event1 1 []) mcE))))) = [] \<and>
   reading (snd (UpdateEvent (event1 1 []) mcE)) = reading mcE"
  by (simp add: event_eval)

lemma getEvents_ok:
  "no_faults (Suc n) mc \<Longrightarrow>
   getEvents q mc = (map Event (filter q (event mc)), None, sent EVENTS_COLLECTION OpFind mc)"
  by (simp add: getEvents_def Find_events_All_def driver_ok sent_def)

lemma faults_clock [simp]: "no_faults n (mc\<lparr>UnixNano := t\<rparr>) = no_faults n mc"
  by (simp add: no_faults_def)

text \<open>
  Claim C9, as the code has it. After a successful \<^verbatim>\<open>AddEvent\<close>, with the clock reading
  \<open>t\<close> nanoseconds when \<^verbatim>\<open>EventsOlderThanAge(0)\<close> is called and a store that answers, the
  result is exactly the stored Events created strictly before the millisecond of \<open>t\<close>.
  So the Event just added is left out when the clock still reads the millisecond of its
  creation (and the result is empty when nothing else was stored), and it is returned as
  soon as the clock has moved to a later millisecond.
\<close>

theorem EventsOlderThanAge_after_add:
  assumes add: "AddEvent e mc = (e', oid, None, mc1)" and ok: "no_faults 1 mc1"
  shows "case EventsOlderThanAge 0 (mc1\<lparr>UnixNano := t\<rparr>) of
           (evs, err, mc2) \<Rightarrow>
             err = None \<and>
             evs = filter (\<lambda>x. Event.Created x <s go_div64 t 1000000)
                     (map Event (event mc) @ [e']) \<and>
             (go_div64 t 1000000 = Event.Created e' \<longrightarrow> e' \<notin> set evs) \<and>
             (go_div64 t 1000000 = Event.Created e' \<and> event mc = [] \<longrightarrow> evs = []) \<and>
             (Event.Created e' <s go_div64 t 1000000 \<longrightarrow> e' \<in> set evs)"
proof -
  from AddEvent_success [OF add] have ev: "event mc1 = event mc @ [MongoEvent e']" by simp
  have ok1: "no_faults (Suc 0) (mc1\<lparr>UnixNano := t\<rparr>)" using ok by simp
  show ?thesis
    by (auto simp: EventsOlderThanAge_def getEvents_ok [OF ok1] ev nowMillis_def filter_map
        comp_def Let_def)
qed



text \<open>
  Claim C9 as stated says the result is empty. An Event added to the empty store at
  millisecond 5 is returned by \<^verbatim>\<open>EventsOlderThanAge(0)\<close> called at millisecond 6.
\<close>

theorem EventsOlderThanAge_returns_added_event:
  "Event.Created (fst (AddEvent (event1 7 []) mc0)) = 5 \<and>
   fst (EventsOlderThanAge 0
          ((snd (snd (snd (AddEvent (event1 7 []) mc0))))\<lparr>UnixNano := 6000000\<rparr>)) =
     [(event1 0 [])\<lparr>Event.Created := 5\<rparr>]"
  by (simp add: AddEvent_eval EventsOlderThanAge_def getEvents_def Find_events_All_def)

theorem EventsOlderThanAge_after_add_witness:
  "AddEvent (event1 7 []) mc0 =
     ((event1 0 [])\<lparr>Event.Created := 5\<rparr>, Oid 0, None,
      mc0\<lparr>event := [MongoEvent ((event1 0 [])\<lparr>Event.Created := 5\<rparr>)],
          issued := [(''event'', OpInsert)], objectIdCounter := 1\<rparr>) \<and>
   no_faults 1 (mc0\<lparr>event := [MongoEvent ((event1 0 [])\<lparr>Event.Created := 5\<rparr>)],
                   issued := [(''event'', OpInsert)], objectIdCounter := 1\<rparr>) \<and>
   go_div64 5999999 1000000 = Event.Created ((event1 0 [])\<lparr>Event.Created := 5\<rparr>) \<and>
   event mc0 = [] \<and>
   fst (EventsOlderThanAge 0
          (mc0\<lparr>event := [MongoEvent ((event1 0 [])\<lparr>Event.Created := 5\<rparr>)],
               issued := [(''event'', OpInsert)], objectIdCounter := 1,
               UnixNano := 5999999\<rparr>)) = [] \<and>
   Event.Created ((event1 0 [])\<lparr>Event.Created := 5\<rparr>) <s go_div64 6000000 1000000 \<and>
   fst (EventsOlderThanAge 0
          (mc0\<lparr>event := [MongoEvent ((event1 0 [])\<lparr>Event.Created := 5\<rparr>)],
               issued := [(''event'', OpInsert)], objectIdCounter := 1,
               UnixNano := 6000000\<rparr>)) = [(event1 0 [])\<lparr>Event.Created := 5\<rparr>]"
proof -
  have h: "AddEvent (event1 7 []) mc0 =
     ((event1 0 [])\<lparr>Event.Created := 5\<rparr>, Oid 0, None,
      mc0\<lparr>event := [MongoEvent ((event1 0 [])\<lparr>Event.Created := 5\<rparr>)],
          issued := [(''event'', OpInsert)], objectIdCounter := 1\<rparr>)"
    by (simp add: AddEvent_eval)
  have ok: "no_faults 1 (mc0\<lparr>event := [MongoEvent ((event1 0 [])\<lparr>Event.Created := 5\<rparr>)],
                   issued := [(''event'', OpInsert)], objectIdCounter := 1\<rparr>)"
    by (simp add: no_faults_def mc0_def)
  from EventsOlderThanAge_after_add [OF h ok, of 5999999]
    EventsOlderThanAge_after_add [OF h ok, of 6000000] h ok
  show ?thesis
    by (simp add: go_div64_def event1_def mc0_def split: prod.splits)
qed

end
